theory Spec2Isabelle
  imports Complex_Main "HOL-Library.Monad_Syntax"
begin

section \<open>Dual-band matching network synthesis (core/matcher.py)\<close>

text \<open>
  The program computes with Python and numpy floating-point numbers. This development
  models them by the real and complex numbers: rounding is not modelled, and neither are
  the values \<open>inf\<close> and \<open>nan\<close>. Wherever the program divides by a quantity that can be
  zero, or takes the tangent of an angle at which the real tangent has a pole, the model
  computes in the option monad and returns \<open>None\<close>: from there on the program either
  raises (Python floats) or continues with \<open>inf\<close>/\<open>nan\<close> (numpy), and the model makes
  no statement about its values. A division that the program guards by a threshold
  test is written with the plain division of HOL.

  The same \<open>None\<close> is the result of reading an attribute that is still \<open>None\<close> in the
  program (arithmetic on it raises \<open>TypeError\<close>).
\<close>

subsection \<open>Partial arithmetic\<close>

definition rdiv :: "real \<Rightarrow> real \<Rightarrow> real option" where
  "rdiv x y = (if y = 0 then None else Some (x / y))"

definition cdiv :: "complex \<Rightarrow> complex \<Rightarrow> complex option" where
  "cdiv x y = (if y = 0 then None else Some (x / y))"

definition np_tan :: "real \<Rightarrow> real option" where
  "np_tan x = (if cos x = 0 then None else Some (tan x))"

definition np_radians :: "real \<Rightarrow> real" where
  "np_radians x = x * pi / 180"

definition np_degrees :: "real \<Rightarrow> real" where
  "np_degrees x = x * 180 / pi"

subsection \<open>The design object\<close>

datatype region_tag = RegionA | RegionB | RegionC

datatype stub = Open | Short

text \<open>
  The attributes of \<open>DualBandMatchingDesign\<close>. The ones that \<open>__init__\<close> sets to \<open>None\<close>
  are options; \<open>Z_in1\<close> and \<open>Z_in_matched\<close> are created by the stages and are \<open>None\<close>
  before.
\<close>

record design =
  f1 :: real
  f2 :: real
  Z_L1_orig :: complex
  Z_L2_orig :: complex
  Z_L1 :: complex
  Z_L2 :: complex
  Z0 :: real
  p1 :: real
  p2 :: real
  aux_line_Z :: "real option"
  aux_line_theta :: "real option"
  Z1 :: "real option"
  theta1 :: "real option"
  Z_in1 :: "complex option"
  region :: "region_tag option"
  aux_stub_type :: "stub option"
  aux_stub_Y2 :: "real option"
  Z_in_matched :: "complex option"
  Z_T1 :: "real option"
  theta_T1 :: "real option"
  Z_m :: "real option"
  stub_type :: "stub option"
  Z_n :: "real option"
  Y_n :: "real option"

definition new_design ::
  "real \<Rightarrow> real \<Rightarrow> complex \<Rightarrow> complex \<Rightarrow> real \<Rightarrow> real \<Rightarrow> real \<Rightarrow> design" where
  "new_design fa fb zl1 zl2 z0 pa pb =
     \<lparr> f1 = fa, f2 = fb, Z_L1_orig = zl1, Z_L2_orig = zl2, Z_L1 = zl1, Z_L2 = zl2,
       Z0 = z0, p1 = pa, p2 = pb,
       aux_line_Z = None, aux_line_theta = None, Z1 = None, theta1 = None,
       Z_in1 = None, region = None, aux_stub_type = None, aux_stub_Y2 = None,
       Z_in_matched = None, Z_T1 = None, theta_T1 = None, Z_m = None,
       stub_type = None, Z_n = None, Y_n = None \<rparr>"

definition init_design :: "real \<Rightarrow> real \<Rightarrow> complex \<Rightarrow> complex \<Rightarrow> real \<Rightarrow> design option" where
  "init_design fa fb zl1 zl2 z0 = do {
     pa \<leftarrow> rdiv fa (fa + fb);
     pb \<leftarrow> rdiv fb (fa + fb);
     Some (new_design fa fb zl1 zl2 z0 pa pb)
   }"

subsection \<open>Auxiliary line\<close>

definition apply_aux_line :: "design \<Rightarrow> real \<Rightarrow> real \<Rightarrow> design option" where
  "apply_aux_line d Z_p theta_deg =
    (let theta_rad = np_radians theta_deg;
         theta_p1 = theta_rad * p1 d;
         theta_p2 = theta_rad * p2 d
     in do {
       t1 \<leftarrow> np_tan theta_p1;
       Z_L1_new \<leftarrow> cdiv (of_real Z_p * (Z_L1_orig d + \<i> * of_real Z_p * of_real t1))
                        (of_real Z_p + \<i> * Z_L1_orig d * of_real t1);
       t2 \<leftarrow> np_tan theta_p2;
       Z_L2_new \<leftarrow> cdiv (of_real Z_p * (Z_L2_orig d + \<i> * of_real Z_p * of_real t2))
                        (of_real Z_p + \<i> * Z_L2_orig d * of_real t2);
       Some (d\<lparr> Z_L1 := Z_L1_new, Z_L2 := Z_L2_new,
                aux_line_Z := Some Z_p, aux_line_theta := Some theta_rad \<rparr>)
     })"

subsection \<open>Stage 1: conjugate transform\<close>

definition conj_radicand :: "design \<Rightarrow> real" where
  "conj_radicand d =
    (let R_L1 = Re (Z_L1 d); X_L1 = Im (Z_L1 d);
         R_L2 = Re (Z_L2 d); X_L2 = Im (Z_L2 d);
         term1 = R_L1 * R_L2 + X_L1 * X_L2;
         term2 = (X_L1 + X_L2) / (R_L2 - R_L1) * (R_L1 * X_L2 - R_L2 * X_L1)
     in term1 + term2)"

definition conj_raw_angle :: "design \<Rightarrow> real" where
  "conj_raw_angle d =
    (let R_L1 = Re (Z_L1 d); X_L1 = Im (Z_L1 d);
         R_L2 = Re (Z_L2 d); X_L2 = Im (Z_L2 d);
         numerator = sqrt (conj_radicand d) * (R_L2 - R_L1);
         denominator = R_L2 * X_L1 - R_L1 * X_L2
     in if \<bar>denominator\<bar> < 1 / 10 ^ 9 then pi / 2
        else arctan (numerator / denominator))"

definition calculate_conjugate_transform :: "design \<Rightarrow> real \<Rightarrow> (bool \<times> design) option" where
  "calculate_conjugate_transform d additional_pi =
    (if \<bar>Re (Z_L2 d) - Re (Z_L1 d)\<bar> < 1 / 10 ^ 6 then Some (False, d)
     else if conj_radicand d < 0 then Some (False, d)
     else
       (let Z1v = sqrt (conj_radicand d);
            theta1_rad = conj_raw_angle d;
            theta1_rad' = (if theta1_rad < 0 then theta1_rad + pi else theta1_rad);
            theta1v = theta1_rad' + additional_pi * pi;
            theta1_f1 = theta1v * p1 d
        in do {
          t \<leftarrow> np_tan theta1_f1;
          zin \<leftarrow> cdiv (of_real Z1v * (Z_L1 d + \<i> * of_real Z1v * of_real t))
                      (of_real Z1v + \<i> * Z_L1 d * of_real t);
          Some (True, d\<lparr> Z1 := Some Z1v, theta1 := Some theta1v, Z_in1 := Some zin \<rparr>)
        }))"

subsection \<open>Stage 2: Smith chart region and auxiliary stub\<close>

text \<open>
  The two candidate stub admittances for a wanted susceptance \<open>B\<close> at a stub whose
  tangent is \<open>t\<close>; the program writes the same two expressions in
  \<open>_add_auxiliary_stub\<close> and in \<open>synthesize_pi_network\<close>.
\<close>

definition stub_open :: "real \<Rightarrow> real \<Rightarrow> real" where
  "stub_open B t = (if \<bar>t\<bar> > 1 / 10 ^ 9 then B / t else 0)"

definition stub_short :: "real \<Rightarrow> real \<Rightarrow> real" where
  "stub_short B t = - B * t"

definition aux_stub_select :: "real \<Rightarrow> real \<Rightarrow> stub \<times> real \<times> complex" where
  "aux_stub_select target_B_stub tan_theta =
    (let Y2_open = stub_open target_B_stub tan_theta;
         Y2_short = stub_short target_B_stub tan_theta
     in if Y2_open > 0 then (Open, Y2_open, \<i> * of_real Y2_open * of_real tan_theta)
        else if Y2_short > 0 then (Short, Y2_short, - \<i> * of_real Y2_short / of_real tan_theta)
        else (Open, 2 / 100, 0))"

definition add_auxiliary_stub :: "design \<Rightarrow> design option" where
  "add_auxiliary_stub d = do {
     zin \<leftarrow> Z_in1 d;
     Y_in1 \<leftarrow> cdiv 1 zin;
     tan_theta \<leftarrow> np_tan (p1 d * pi);
     (case aux_stub_select (- Im Y_in1) tan_theta of
        (ty, Y2, Y_stub) \<Rightarrow> do {
          zm \<leftarrow> cdiv 1 (Y_in1 + Y_stub);
          Some (d\<lparr> aux_stub_type := Some ty, aux_stub_Y2 := Some Y2,
                   Z_in_matched := Some zm, region := Some RegionA \<rparr>)
        })
   }"

definition check_region_and_adjust :: "design \<Rightarrow> bool \<Rightarrow> design option" where
  "check_region_and_adjust d allow_aux_stub = do {
     zin \<leftarrow> Z_in1 d;
     z_norm \<leftarrow> cdiv zin (of_real (Z0 d));
     inv \<leftarrow> cdiv 1 z_norm;
     (let r = Re z_norm;
          g = Re inv;
          d1 = d\<lparr> Z_in_matched := Some zin \<rparr>
      in if r > 1 then Some (d1\<lparr> region := Some RegionA \<rparr>)
         else if g > 1 then Some (d1\<lparr> region := Some RegionB \<rparr>)
         else if allow_aux_stub then add_auxiliary_stub (d1\<lparr> region := Some RegionC \<rparr>)
         else Some (d1\<lparr> region := Some RegionC \<rparr>))
   }"

subsection \<open>Stage 3: pi-network parameters\<close>

definition calculate_matching_network :: "design \<Rightarrow> (bool \<times> design) option" where
  "calculate_matching_network d = do {
     z \<leftarrow> Z_in_matched d;
     q \<leftarrow> rdiv ((Im z)\<^sup>2 * Z0 d) (Re z - Z0 d);
     (let R_in1 = Re z; X_in1 = Im z; Z_S = Z0 d;
          term_sqrt = q + R_in1 * Z_S
      in if term_sqrt < 0 then Some (False, d)
         else
           (let ZT = sqrt term_sqrt;
                num = ZT * (Z_S - R_in1);
                den = X_in1 * Z_S;
                theta_T1_rad = (if \<bar>den\<bar> < 1 / 10 ^ 9 then pi / 2 else arctan (num / den));
                theta_T1_rad' = (if theta_T1_rad \<le> 0 then theta_T1_rad + pi else theta_T1_rad)
            in Some (True, d\<lparr> Z_T1 := Some ZT, theta_T1 := Some theta_T1_rad' \<rparr>)))
   }"

subsection \<open>Stage 4: pi-network components\<close>

definition pi_stub_select :: "real \<Rightarrow> real \<Rightarrow> stub \<times> real" where
  "pi_stub_select B_n1 tan_theta =
    (let Y_open = stub_open B_n1 tan_theta;
         Y_short = stub_short B_n1 tan_theta
     in if Y_open > 0 then (Open, Y_open)
        else if Y_short > 0 then (Short, Y_short)
        else (Open, if Y_open \<noteq> 0 then Y_open else 2 / 100))"

definition synthesize_pi_network :: "design \<Rightarrow> design option" where
  "synthesize_pi_network d = do {
     ZT \<leftarrow> Z_T1 d;
     thT \<leftarrow> theta_T1 d;
     Zm \<leftarrow> rdiv (ZT * sin thT) (sin (p1 d * pi));
     B_n1 \<leftarrow> rdiv (cos (p1 d * pi) - cos thT) (Zm * sin (p1 d * pi));
     tan_theta \<leftarrow> np_tan (p1 d * pi);
     (case pi_stub_select B_n1 tan_theta of
        (ty, Yn) \<Rightarrow> do {
          Zn \<leftarrow> rdiv 1 Yn;
          Some (d\<lparr> Z_m := Some Zm, stub_type := Some ty, Y_n := Some Yn, Z_n := Some Zn \<rparr>)
        })
   }"

subsection \<open>Result dictionary\<close>

record params =
  out_f_design :: real
  out_region :: "region_tag option"
  out_Z_aux :: real
  out_theta_aux :: real
  out_Z1 :: real
  out_theta1 :: real
  out_Z_series :: real
  out_Z_stub :: real
  out_stub_type :: "stub option"
  out_aux_stub_type :: "stub option"
  out_aux_stub_Z :: real

record candidate = params +
  out_VSWR_f1 :: real
  out_VSWR_f2 :: real

definition get_design_parameters :: "design \<Rightarrow> params option" where
  "get_design_parameters d = do {
     z1 \<leftarrow> Z1 d;
     th1 \<leftarrow> theta1 d;
     zm \<leftarrow> Z_m d;
     zn \<leftarrow> Z_n d;
     Some \<lparr> out_f_design = f1 d + f2 d,
            out_region = region d,
            out_Z_aux = (case aux_line_Z d of None \<Rightarrow> 0
                         | Some z \<Rightarrow> if z \<noteq> 0 then z else 0),
            out_theta_aux = (case aux_line_theta d of None \<Rightarrow> 0
                             | Some t \<Rightarrow> if t \<noteq> 0 then np_degrees t else 0),
            out_Z1 = z1,
            out_theta1 = np_degrees th1,
            out_Z_series = zm,
            out_Z_stub = zn,
            out_stub_type = stub_type d,
            out_aux_stub_type = aux_stub_type d,
            out_aux_stub_Z = (case aux_stub_Y2 d of None \<Rightarrow> 0
                              | Some y \<Rightarrow> if y \<noteq> 0 then 1 / y else 0) \<rparr>
   }"

subsection \<open>Verification\<close>

definition tline_input_z :: "complex \<Rightarrow> real \<Rightarrow> real \<Rightarrow> complex option" where
  "tline_input_z z_l z_c theta_rad =
    (if \<bar>cos theta_rad\<bar> < 1 / 10 ^ 9 then
       (if cmod z_l < 1 / 10 ^ 9 then Some (Complex (10 ^ 9) 0)
        else Some ((of_real z_c)\<^sup>2 / z_l))
     else
       (let t = \<i> * of_real (tan theta_rad)
        in cdiv (of_real z_c * (z_l + of_real z_c * t)) (of_real z_c + z_l * t)))"

definition stub_admittance :: "real \<Rightarrow> real \<Rightarrow> bool \<Rightarrow> complex" where
  "stub_admittance y_c theta_rad is_open =
    (if \<bar>cos theta_rad\<bar> < 1 / 10 ^ 9 then (if is_open then Complex 0 (10 ^ 9) else 0)
     else if \<bar>sin theta_rad\<bar> < 1 / 10 ^ 9 then (if is_open then 0 else Complex 0 (- (10 ^ 9)))
     else if is_open then \<i> * of_real y_c * of_real (tan theta_rad)
     else - \<i> * of_real y_c / of_real (tan theta_rad))"

definition shunt :: "complex \<Rightarrow> complex \<Rightarrow> complex option" where
  "shunt current_z y = do { inv \<leftarrow> cdiv 1 current_z; cdiv 1 (inv + y) }"

definition verify_one :: "design \<Rightarrow> real \<Rightarrow> complex \<Rightarrow> real option" where
  "verify_one d f z_l_orig = do {
     scale \<leftarrow> rdiv f (f1 d + f2 d);
     za \<leftarrow> (case aux_line_Z d of
              None \<Rightarrow> Some z_l_orig
            | Some zp \<Rightarrow>
                if zp \<noteq> 0 then do { th \<leftarrow> aux_line_theta d; tline_input_z z_l_orig zp (th * scale) }
                else Some z_l_orig);
     z1v \<leftarrow> Z1 d;
     th1 \<leftarrow> theta1 d;
     z1 \<leftarrow> tline_input_z za z1v (th1 * scale);
     z2 \<leftarrow> (case aux_stub_type d of
              None \<Rightarrow> Some z1
            | Some ty \<Rightarrow> do {
                y2 \<leftarrow> aux_stub_Y2 d;
                shunt z1 (stub_admittance y2 (pi * scale) (ty = Open))
              });
     yn \<leftarrow> Y_n d;
     zm \<leftarrow> Z_m d;
     z3 \<leftarrow> shunt z2 (stub_admittance yn (pi * scale) (stub_type d = Some Open));
     z4 \<leftarrow> tline_input_z z3 zm (pi * scale);
     z5 \<leftarrow> shunt z4 (stub_admittance yn (pi * scale) (stub_type d = Some Open));
     rho \<leftarrow> cdiv (z5 - of_real (Z0 d)) (z5 + of_real (Z0 d));
     rdiv (1 + cmod rho) (1 - cmod rho)
   }"

text \<open>The result of \<open>verify_metrics\<close> is a dictionary keyed by the two frequencies.\<close>

definition verify_metrics :: "design \<Rightarrow> (real \<rightharpoonup> real) option" where
  "verify_metrics d = do {
     v1 \<leftarrow> verify_one d (f1 d) (Z_L1_orig d);
     v2 \<leftarrow> verify_one d (f2 d) (Z_L2_orig d);
     Some ((Map.empty(f1 d \<mapsto> v1))(f2 d \<mapsto> v2))
   }"

subsection \<open>The search\<close>

text \<open>
  The outcome of the loop body at one grid point. \<open>Skipped\<close>: a stage returned \<open>False\<close>
  and the loop continued. \<open>Emitted d c\<close>: both stages that can fail returned \<open>True\<close>, so a
  candidate is appended; \<open>d\<close> is the design when \<open>calculate_matching_network\<close> returned and
  \<open>c\<close> the appended dictionary, \<open>None\<close> when its numbers leave the reals (the later stages
  have no failure path and the candidate is appended all the same). \<open>Unknown\<close>: the
  computation left the reals before the candidate was accepted or rejected.
\<close>

datatype outcome = Unknown | Skipped | Emitted design "candidate option"

definition finish_candidate :: "design \<Rightarrow> real \<Rightarrow> real \<Rightarrow> candidate option" where
  "finish_candidate d4 fa fb = do {
     d5 \<leftarrow> synthesize_pi_network d4;
     ps \<leftarrow> get_design_parameters d5;
     metrics \<leftarrow> verify_metrics d5;
     v1 \<leftarrow> metrics fa;
     v2 \<leftarrow> metrics fb;
     Some (params.extend ps \<lparr> out_VSWR_f1 = v1, out_VSWR_f2 = v2 \<rparr>)
   }"

definition run_point ::
  "real \<Rightarrow> real \<Rightarrow> complex \<Rightarrow> complex \<Rightarrow> real \<Rightarrow> bool \<Rightarrow> nat \<Rightarrow> nat \<Rightarrow> outcome" where
  "run_point fa fb zl1 zl2 z0 allow_aux_stub theta_aux k =
    (case init_design fa fb zl1 zl2 z0 of
       None \<Rightarrow> Unknown
     | Some d0 \<Rightarrow>
    (case (if theta_aux > 0 then apply_aux_line d0 50 (real theta_aux) else Some d0) of
       None \<Rightarrow> Unknown
     | Some d1 \<Rightarrow>
    (case calculate_conjugate_transform d1 (real k) of
       None \<Rightarrow> Unknown
     | Some (False, _) \<Rightarrow> Skipped
     | Some (True, d2) \<Rightarrow>
    (case check_region_and_adjust d2 allow_aux_stub of
       None \<Rightarrow> Unknown
     | Some d3 \<Rightarrow>
    (case calculate_matching_network d3 of
       None \<Rightarrow> Unknown
     | Some (False, _) \<Rightarrow> Skipped
     | Some (True, d4) \<Rightarrow> Emitted d4 (finish_candidate d4 fa fb))))))"

definition py_range :: "nat \<Rightarrow> nat \<Rightarrow> nat \<Rightarrow> nat list" where
  "py_range start stop step =
     map (\<lambda>i. start + i * step) [0 ..< (stop - start + step - 1) div step]"

definition theta_aux_range :: "bool \<Rightarrow> nat list" where
  "theta_aux_range scan_load_aux_line = (if scan_load_aux_line then py_range 0 180 5 else [0])"

definition k_range :: "nat list" where
  "k_range = [0, 1]"

definition grid :: "bool \<Rightarrow> (nat \<times> nat) list" where
  "grid scan_load_aux_line =
     concat (map (\<lambda>theta_aux. map (\<lambda>k. (theta_aux, k)) k_range) (theta_aux_range scan_load_aux_line))"

definition search_outcomes ::
  "real \<Rightarrow> real \<Rightarrow> complex \<Rightarrow> complex \<Rightarrow> real \<Rightarrow> bool \<Rightarrow> bool \<Rightarrow> outcome list" where
  "search_outcomes fa fb zl1 zl2 z0 allow_aux_stub scan_load_aux_line =
     map (\<lambda>(theta_aux, k). run_point fa fb zl1 zl2 z0 allow_aux_stub theta_aux k)
       (grid scan_load_aux_line)"

fun emitted :: "outcome list \<Rightarrow> (design \<times> candidate option) list" where
  "emitted [] = []"
| "emitted (Emitted d c # os) = (d, c) # emitted os"
| "emitted (_ # os) = emitted os"

definition find_all_designs ::
  "real \<Rightarrow> real \<Rightarrow> complex \<Rightarrow> complex \<Rightarrow> real \<Rightarrow> bool \<Rightarrow> bool \<Rightarrow> (design \<times> candidate option) list" where
  "find_all_designs fa fb zl1 zl2 z0 allow_aux_stub scan_load_aux_line =
     emitted (search_outcomes fa fb zl1 zl2 z0 allow_aux_stub scan_load_aux_line)"

subsection \<open>Example designs\<close>

text \<open>
  The loads \<open>30 + 30j\<close> at 1 Hz and \<open>15 + 15j\<close> at 5 Hz on a 50 Ohm system, without
  auxiliary line, and the states of the design after each stage on the branch \<open>k = 1\<close>.
\<close>

definition ex_d0 :: design where
  "ex_d0 = new_design 1 5 (Complex 30 30) (Complex 15 15) 50 (1 / 6) (5 / 6)"

definition ex_d2 :: design where
  "ex_d2 = ex_d0\<lparr> Z1 := Some 30, theta1 := Some (3 * pi / 2), Z_in1 := Some (Complex 60 (- 30)) \<rparr>"

definition ex_d3 :: design where
  "ex_d3 = ex_d2\<lparr> Z_in_matched := Some (Complex 60 (- 30)), region := Some RegionA \<rparr>"

definition ex_d4 :: design where
  "ex_d4 = ex_d3\<lparr> Z_T1 := Some (50 * sqrt 3), theta_T1 := Some (pi / 6) \<rparr>"

definition ex_d5 :: design where
  "ex_d5 = ex_d4\<lparr> Z_m := Some (50 * sqrt 3), stub_type := Some Open,
                  Y_n := Some (1 / 50), Z_n := Some 50 \<rparr>"

text \<open>Equal loads \<open>30 + 30j\<close> at both frequencies.\<close>

definition eq_d0 :: design where
  "eq_d0 = new_design 1 5 (Complex 30 30) (Complex 30 30) 50 (1 / 6) (5 / 6)"

subsection \<open>More example designs and an abbreviation for the line formula\<close>









subsection \<open>Examples for the verification at the first frequency\<close>








section \<open>Evaluation of the example\<close>


lemma eq_init: "init_design 1 5 (Complex 30 30) (Complex 30 30) 50 = Some eq_d0"
  by (simp add: init_design_def rdiv_def eq_d0_def new_design_def)

lemma sqrt_900: "sqrt 900 = 30"
  by (rule real_sqrt_unique) simp_all



lemma np_tan_45: "np_tan (pi / 4) = Some 1"
  by (simp add: np_tan_def tan_45 cos_45)

lemma np_tan_30: "np_tan (pi / 6) = Some (1 / sqrt 3)"
  by (simp add: np_tan_def tan_30 cos_30)

lemma ex_radicand: "conj_radicand ex_d0 = 900"
  by (simp add: conj_radicand_def ex_d0_def new_design_def)

lemma ex_angle: "conj_raw_angle ex_d0 = pi / 2"
  by (simp add: conj_raw_angle_def ex_d0_def new_design_def)

lemma ex_conj: "calculate_conjugate_transform ex_d0 1 = Some (True, ex_d2)"
  apply (simp add: calculate_conjugate_transform_def ex_radicand ex_angle sqrt_900 Let_def ex_d2_def)
  apply (simp add: ex_d0_def new_design_def np_tan_45 cdiv_def complex_eq_iff Re_divide Im_divide power2_eq_square)
  done

lemma ex_conj0: "\<exists>da. calculate_conjugate_transform ex_d0 0 = Some (True, da)"
proof -
  have c: "cos (pi / 12) > 0" by (rule cos_gt_zero_pi) (use pi_gt_zero in auto)
  have t: "tan (pi / 12) > 0" by (rule tan_gt_zero) (use pi_gt_zero in auto)
  have n: "np_tan (pi / 12) = Some (tan (pi / 12))" using c by (simp add: np_tan_def)
  have z: "complex_of_real 30 + \<i> * Complex 30 30 * complex_of_real (tan (pi / 12)) \<noteq> 0"
    using t by (simp add: complex_eq_iff)
  show ?thesis
    apply (simp add: calculate_conjugate_transform_def ex_radicand ex_angle sqrt_900 Let_def)
    using z apply (simp add: ex_d0_def new_design_def n cdiv_def)
    done
qed



lemma ex_synth: "synthesize_pi_network ex_d4 = Some ex_d5"
  by (simp add: synthesize_pi_network_def ex_d5_def ex_d4_def ex_d3_def ex_d2_def ex_d0_def new_design_def rdiv_def
      sin_30 cos_30 np_tan_30 pi_stub_select_def stub_open_def stub_short_def)

section \<open>The frequency fractions\<close>



section \<open>The search grid\<close>

lemma theta_aux_range_scan: "theta_aux_range True = map (\<lambda>i. 5 * i) [0 ..< 36]"
  by (simp add: theta_aux_range_def py_range_def mult.commute)

lemma length_grid: "length (grid scan) = 2 * length (theta_aux_range scan)"
  by (simp add: grid_def k_range_def length_concat comp_def sum_list_triv)

text \<open>
  C7. Without the scan the loop body runs at the 2 grid points \<open>(0, 0)\<close> and \<open>(0, 1)\<close>; with
  the scan it runs at the 72 points of the product of the 36 angles \<open>0, 5, ..., 175\<close> with
  the branches \<open>0\<close> and \<open>1\<close>.
\<close>

theorem search_grid_size:
  "theta_aux_range False = [0]
   \<and> grid False = [(0, 0), (0, 1)]
   \<and> length (search_outcomes fa fb zl1 zl2 z0 allow False) = 2
   \<and> theta_aux_range True = map (\<lambda>i. 5 * i) [0 ..< 36]
   \<and> grid True = List.product (map (\<lambda>i. 5 * i) [0 ..< 36]) [0, 1]
   \<and> length (search_outcomes fa fb zl1 zl2 z0 allow True) = 72"
proof -
  have a: "theta_aux_range False = [0]" by (simp add: theta_aux_range_def)
  have b: "grid False = [(0, 0), (0, 1)]" by (simp add: grid_def a k_range_def)
  have c: "grid True = List.product (map (\<lambda>i. 5 * i) [0 ..< 36]) [0, 1]"
    unfolding grid_def theta_aux_range_scan k_range_def
    by (simp add: List.product_concat_map comp_def)
  have d: "length (search_outcomes fa fb zl1 zl2 z0 allow True) = 72"
    by (simp add: search_outcomes_def length_grid theta_aux_range_scan)
  have e: "length (search_outcomes fa fb zl1 zl2 z0 allow False) = 2"
    by (simp add: search_outcomes_def b)
  from a b c d e theta_aux_range_scan show ?thesis by blast
qed

section \<open>The conjugate-match stage\<close>

lemma conj_result_cases:
  "calculate_conjugate_transform d k = Some (False, d') \<Longrightarrow>
     \<bar>Re (Z_L2 d) - Re (Z_L1 d)\<bar> < 1 / 10 ^ 6 \<or> conj_radicand d < 0"
  by (auto simp: calculate_conjugate_transform_def Let_def split: if_splits Option.bind_splits)

lemma conj_fails:
  "\<bar>Re (Z_L2 d) - Re (Z_L1 d)\<bar> < 1 / 10 ^ 6 \<or> conj_radicand d < 0 \<Longrightarrow>
     calculate_conjugate_transform d k = Some (False, d)"
  by (auto simp: calculate_conjugate_transform_def)

text \<open>
  C3. \<open>calculate_conjugate_transform\<close> returns \<open>False\<close> exactly when the two load resistances
  differ by less than \<open>1e-6\<close> or the radicand of \<open>Z1\<close> is negative; and a grid point at which
  it does so is skipped: it contributes no candidate.
\<close>

theorem conj_fail_iff_and_skip:
  "((\<exists>d'. calculate_conjugate_transform d k = Some (False, d')) \<longleftrightarrow>
      (\<bar>Re (Z_L2 d) - Re (Z_L1 d)\<bar> < 1 / 10 ^ 6 \<or> conj_radicand d < 0))
   \<and> (init_design fa fb zl1 zl2 z0 = Some d0 \<longrightarrow>
        (if 0 < theta_aux then apply_aux_line d0 50 (real theta_aux) else Some d0) = Some d1 \<longrightarrow>
        (\<bar>Re (Z_L2 d1) - Re (Z_L1 d1)\<bar> < 1 / 10 ^ 6 \<or> conj_radicand d1 < 0) \<longrightarrow>
        run_point fa fb zl1 zl2 z0 allow theta_aux kk = Skipped
        \<and> emitted [run_point fa fb zl1 zl2 z0 allow theta_aux kk] = [])"
proof (intro conjI impI)
  show "(\<exists>d'. calculate_conjugate_transform d k = Some (False, d')) \<longleftrightarrow>
      (\<bar>Re (Z_L2 d) - Re (Z_L1 d)\<bar> < 1 / 10 ^ 6 \<or> conj_radicand d < 0)"
    using conj_result_cases conj_fails by blast
next
  assume i: "init_design fa fb zl1 zl2 z0 = Some d0"
    and a: "(if 0 < theta_aux then apply_aux_line d0 50 (real theta_aux) else Some d0) = Some d1"
    and f: "\<bar>Re (Z_L2 d1) - Re (Z_L1 d1)\<bar> < 1 / 10 ^ 6 \<or> conj_radicand d1 < 0"
  from f have "calculate_conjugate_transform d1 (real kk) = Some (False, d1)"
    by (rule conj_fails)
  with i a show s: "run_point fa fb zl1 zl2 z0 allow theta_aux kk = Skipped"
    by (simp add: run_point_def)
  then show "emitted [run_point fa fb zl1 zl2 z0 allow theta_aux kk] = []" by simp
qed

theorem conj_fail_iff_and_skip_witness:
  "(\<exists>d'. calculate_conjugate_transform eq_d0 0 = Some (False, d'))
   \<and> run_point 1 5 (Complex 30 30) (Complex 30 30) 50 True 0 0 = Skipped
   \<and> emitted [run_point 1 5 (Complex 30 30) (Complex 30 30) 50 True 0 0] = []"
proof -
  have f: "\<bar>Re (Z_L2 eq_d0) - Re (Z_L1 eq_d0)\<bar> < 1 / 10 ^ 6 \<or> conj_radicand eq_d0 < 0"
    by (simp add: eq_d0_def new_design_def)
  have a: "(if 0 < (0::nat) then apply_aux_line eq_d0 50 (real (0::nat)) else Some eq_d0) = Some eq_d0"
    by simp
  from conj_fail_iff_and_skip [of eq_d0 0 1 5 "Complex 30 30" "Complex 30 30" 50 eq_d0 0 eq_d0 True 0]
    f a eq_init
  show ?thesis by blast
qed

text \<open>
  C5. When both branches succeed on the same design, the angle of the branch \<open>k = 1\<close> is
  the angle of the branch \<open>k = 0\<close> plus \<open>pi\<close>; the angle of the branch \<open>k = 0\<close> is the raw
  angle with \<open>pi\<close> added when it is negative, so the correction precedes the offset.
\<close>

theorem conj_branch_offset:
  "calculate_conjugate_transform d 0 = Some (True, da) \<Longrightarrow>
   calculate_conjugate_transform d 1 = Some (True, db) \<Longrightarrow>
   (\<exists>t. theta1 da = Some t \<and> theta1 db = Some (t + pi)
        \<and> t = (if conj_raw_angle d < 0 then conj_raw_angle d + pi else conj_raw_angle d)
        \<and> 0 \<le> t \<and> t < pi)"
proof -
  assume a: "calculate_conjugate_transform d 0 = Some (True, da)"
    and b: "calculate_conjugate_transform d 1 = Some (True, db)"
  let ?t = "if conj_raw_angle d < 0 then conj_raw_angle d + pi else conj_raw_angle d"
  have ta: "theta1 da = Some ?t"
    using a by (auto simp: calculate_conjugate_transform_def Let_def split: if_splits Option.bind_splits)
  have tb: "theta1 db = Some (?t + pi)"
    using b by (auto simp: calculate_conjugate_transform_def Let_def split: if_splits Option.bind_splits)
  have r1: "- (pi / 2) < conj_raw_angle d"
    using arctan_lbound pi_gt_zero by (auto simp: conj_raw_angle_def Let_def intro: less_trans)
  have r2: "conj_raw_angle d \<le> pi / 2"
    using arctan_ubound by (auto simp: conj_raw_angle_def Let_def intro: less_imp_le)
  have "0 \<le> ?t \<and> ?t < pi" using r1 r2 pi_gt_zero by (auto; linarith)
  with ta tb show ?thesis by blast
qed

theorem conj_branch_offset_witness:
  "\<exists>da db t. calculate_conjugate_transform ex_d0 0 = Some (True, da)
     \<and> calculate_conjugate_transform ex_d0 1 = Some (True, db)
     \<and> theta1 da = Some t \<and> theta1 db = Some (t + pi)
     \<and> t = (if conj_raw_angle ex_d0 < 0 then conj_raw_angle ex_d0 + pi else conj_raw_angle ex_d0)
     \<and> 0 \<le> t \<and> t < pi"
proof -
  obtain da where a: "calculate_conjugate_transform ex_d0 0 = Some (True, da)"
    using ex_conj0 by blast
  note b = ex_conj
  from conj_branch_offset [OF a b] a b show ?thesis by blast
qed

section \<open>The stub admittances\<close>

lemma pi_stub_select_nonzero: "snd (pi_stub_select B t) \<noteq> 0"
  by (auto simp: pi_stub_select_def Let_def)

text \<open>
  C10. After \<open>synthesize_pi_network\<close> the stub admittance \<open>Y_n\<close> is not zero, and
  \<open>Z_n = 1 / Y_n\<close>: the last division of the stage never divides by zero.
\<close>

theorem pi_stub_admittance_nonzero:
  "synthesize_pi_network d = Some d' \<Longrightarrow>
   \<exists>y. Y_n d' = Some y \<and> y \<noteq> 0 \<and> Z_n d' = Some (1 / y)"
proof -
  assume s: "synthesize_pi_network d = Some d'"
  then obtain B t ty y zn where sel: "pi_stub_select B t = (ty, y)"
    and zn: "rdiv 1 y = Some zn" and yn: "Y_n d' = Some y" and znd: "Z_n d' = Some zn"
    by (auto simp: synthesize_pi_network_def split: Option.bind_splits prod.splits)
  from sel pi_stub_select_nonzero [of B t] have "y \<noteq> 0" by simp
  with zn yn znd show ?thesis by (auto simp: rdiv_def)
qed

theorem pi_stub_admittance_nonzero_witness:
  "synthesize_pi_network ex_d4 = Some ex_d5 \<and>
   (\<exists>y. Y_n ex_d5 = Some y \<and> y \<noteq> 0 \<and> Z_n ex_d5 = Some (1 / y))"
  using pi_stub_admittance_nonzero [OF ex_synth] ex_synth by simp

section \<open>Positive real parts along the network\<close>










section \<open>What each stage returns\<close>



















section \<open>The verification metrics\<close>







section \<open>Angles and regions of emitted candidates\<close>




















section \<open>The placeholder admittance\<close>













section \<open>The match at the first frequency\<close>



























subsection \<open>The first example: a placeholder stub\<close>


















subsection \<open>An example without fallback\<close>













subsection \<open>Emitted candidates\<close>




end
